theory Spec2Isabelle
  imports Main "HOL-Library.AList"
begin

section \<open>Data model of \<^verbatim>\<open>fairseq_signals/models/__init__.py\<close>\<close>

text \<open>
  Names of models and architectures are Python strings. A Python \<^verbatim>\<open>dict\<close> keeps its
  keys in insertion order and \<^verbatim>\<open>d[k] = v\<close> overwrites in place or appends, which is what
  \<open>AList.update\<close> does on an association list; \<^verbatim>\<open>k in d\<close> is membership in the list
  of keys and \<^verbatim>\<open>d[k]\<close> is \<open>map_of\<close>.
\<close>

type_synonym name = string

type_synonym ('k, 'v) dict = "('k \<times> 'v) list"

definition keys :: "('k, 'v) dict \<Rightarrow> 'k list" where
  "keys d = map fst d"

text \<open>Values that a configuration holds, and their Python truth value.\<close>

datatype cfg_value =
    VNone
  | VBool bool
  | VInt int
  | VStr string
  | VDict "(string \<times> cfg_value) list"

fun truthy :: "cfg_value \<Rightarrow> bool" where
  "truthy VNone = False"
| "truthy (VBool b) = b"
| "truthy (VInt i) = (i \<noteq> 0)"
| "truthy (VStr s) = (s \<noteq> [])"
| "truthy (VDict e) = (e \<noteq> [])"

text \<open>
  The configuration objects \<^verbatim>\<open>build_model\<close> works on. \<open>PlainDict\<close> is a Python
  \<^verbatim>\<open>dict\<close>, whose keys are not attributes; \<open>DictConfig\<close> is OmegaConf's mapping, whose
  keys are. \<open>Namespace\<close> is an \<^verbatim>\<open>argparse.Namespace\<close> and \<open>DataclassObj\<close> an instance of
  a \<^verbatim>\<open>Dataclass\<close>: attribute objects without \<^verbatim>\<open>len\<close>. \<open>Scalar\<close> is what line 52 leaves
  in \<^verbatim>\<open>cfg\<close> when the value under the single key is not a mapping.
\<close>

datatype cfg =
    PlainDict "(string \<times> cfg_value) list"
  | DictConfig "(string \<times> cfg_value) list"
  | Namespace "(string \<times> cfg_value) list"
  | DataclassObj "(string \<times> cfg_value) list"
  | Scalar cfg_value

text \<open>
  A model class: its name and whether \<^verbatim>\<open>issubclass(cls, BaseModel)\<close> holds. A schema
  class: its name, whether \<^verbatim>\<open>issubclass(dataclass, Dataclass)\<close> holds, and the fields
  with their defaults that \<^verbatim>\<open>dataclass()\<close> constructs.
\<close>

record cls =
  cls_name :: string
  extends_BaseModel :: bool

record dataclass =
  dc_name :: string
  extends_Dataclass :: bool
  dc_defaults :: "(string \<times> cfg_value) list"

text \<open>
  What is handed to the decorator of \<^verbatim>\<open>register_model_architecture\<close>: a function that
  mutates the configuration it is given (modelled as returning the mutated one), or an
  object for which \<^verbatim>\<open>callable(fn)\<close> is false.
\<close>

datatype py_obj = Function "cfg \<Rightarrow> cfg" | NonCallable

text \<open>The \<^verbatim>\<open>noop\<close> of lines 152-153: \<^verbatim>\<open>def noop(_): pass\<close>.\<close>

definition noop :: "cfg \<Rightarrow> cfg" where
  "noop c = c"

datatype error =
    DuplicateModel name
  | NotBaseModel name string
  | NotDataclass dataclass
  | UnknownModelType name
  | DuplicateArchitecture name
  | NotCallable name
  | DirectoryInferFailed "name list" name
  | ModelTypeNotFound cfg "name list" name
  | TypeError
  | KeyError name
  | AttributeError
  | MissingMandatoryValue string
  | UnknownField string
  | ExternalError string

text \<open>
  The module's global tables (lines 24-29), the attribute \<^verbatim>\<open>cls.__dataclass\<close> that line
  142 writes on the class object (a store from the class to the attribute, so that every
  table holding the class sees the same attribute), and the entries of hydra's
  \<^verbatim>\<open>ConfigStore\<close> keyed by group and name. \<open>ARCH_CONFIG_REGISTRY\<close> holds functions only:
  line 193 lets nothing else in.
\<close>

record registries =
  MODEL_REGISTRY :: "(name, cls) dict"
  MODEL_DATACLASS_REGISTRY :: "(name, dataclass) dict"
  ARCH_MODEL_REGISTRY :: "(name, cls) dict"
  ARCH_MODEL_NAME_REGISTRY :: "(name, name) dict"
  ARCH_MODEL_INV_REGISTRY :: "(name, name list) dict"
  ARCH_CONFIG_REGISTRY :: "(name, cfg \<Rightarrow> cfg) dict"
  cls_dataclass :: "(cls, dataclass option) dict"
  config_store :: "(string \<times> name, (string \<times> cfg_value) list) dict"

definition empty_registries :: registries where
  "empty_registries =
     \<lparr>MODEL_REGISTRY = [], MODEL_DATACLASS_REGISTRY = [], ARCH_MODEL_REGISTRY = [],
      ARCH_MODEL_NAME_REGISTRY = [], ARCH_MODEL_INV_REGISTRY = [],
      ARCH_CONFIG_REGISTRY = [], cls_dataclass = [], config_store = []\<rparr>"

section \<open>Registration\<close>

text \<open>
  \<^verbatim>\<open>register_model_architecture(model_name, arch_name)(fn)\<close>, lines 182-201. A raise
  is \<open>Some\<close> error; the tables are returned as the call leaves them, also when it raises.
\<close>

definition register_model_architecture ::
  "name \<Rightarrow> name \<Rightarrow> py_obj \<Rightarrow> registries \<Rightarrow> error option \<times> registries" where
  "register_model_architecture model_name arch_name fn s =
     (case map_of (MODEL_REGISTRY s) model_name of
        None \<Rightarrow> (Some (UnknownModelType model_name), s)
      | Some model_cls \<Rightarrow>
          if arch_name \<in> set (keys (ARCH_MODEL_REGISTRY s))
          then (Some (DuplicateArchitecture arch_name), s)
          else (case fn of
                  NonCallable \<Rightarrow> (Some (NotCallable arch_name), s)
                | Function f \<Rightarrow>
                    (None,
                     s\<lparr>ARCH_MODEL_REGISTRY :=
                          AList.update arch_name model_cls (ARCH_MODEL_REGISTRY s),
                        ARCH_MODEL_NAME_REGISTRY :=
                          AList.update arch_name model_name (ARCH_MODEL_NAME_REGISTRY s),
                        ARCH_MODEL_INV_REGISTRY :=
                          AList.update model_name
                            ((case map_of (ARCH_MODEL_INV_REGISTRY s) model_name of
                                None \<Rightarrow> [] | Some archs \<Rightarrow> archs) @ [arch_name])
                            (ARCH_MODEL_INV_REGISTRY s),
                        ARCH_CONFIG_REGISTRY :=
                          AList.update arch_name f (ARCH_CONFIG_REGISTRY s)\<rparr>)))"

text \<open>
  \<^verbatim>\<open>register_model(name, dataclass)(cls)\<close>, lines 129-155. Line 136 writes
  \<^verbatim>\<open>MODEL_REGISTRY\<close> before the schema is checked on line 137, and lines 142-149 write
  before the nested architecture registration of line 151 can raise.
\<close>

definition register_model ::
  "name \<Rightarrow> dataclass option \<Rightarrow> cls \<Rightarrow> registries \<Rightarrow> error option \<times> registries" where
  "register_model nm dataclass c s =
     (if nm \<in> set (keys (MODEL_REGISTRY s)) then (Some (DuplicateModel nm), s)
      else if \<not> extends_BaseModel c then (Some (NotBaseModel nm (cls_name c)), s)
      else
        let s1 = s\<lparr>MODEL_REGISTRY := AList.update nm c (MODEL_REGISTRY s)\<rparr> in
        (case dataclass of
           None \<Rightarrow> (None, s1\<lparr>cls_dataclass := AList.update c None (cls_dataclass s1)\<rparr>)
         | Some dc \<Rightarrow>
             if \<not> extends_Dataclass dc then (Some (NotDataclass dc), s1)
             else
               register_model_architecture nm nm (Function noop)
                 (s1\<lparr>cls_dataclass := AList.update c (Some dc) (cls_dataclass s1),
                     MODEL_DATACLASS_REGISTRY :=
                       AList.update nm dc (MODEL_DATACLASS_REGISTRY s1),
                     config_store :=
                       AList.update (''model'', nm)
                         (AList.update ''_name'' (VStr nm) (dc_defaults dc))
                         (config_store s1)\<rparr>)))"

section \<open>Building a model from a configuration\<close>

text \<open>
  The functions and methods that \<^verbatim>\<open>build_model\<close> calls and that live outside this
  module are parameters: \<^verbatim>\<open>merge_with_parent(dc(), cfg, from_checkpoint)\<close> and
  \<^verbatim>\<open>populate_dataclass(dc(), cfg)\<close> of \<^verbatim>\<open>fairseq_signals.dataclass.utils\<close> (given the
  schema class, they construct \<^verbatim>\<open>dc()\<close> themselves),
  \<^verbatim>\<open>checkpoint_utils.load_checkpoint_to_cpu\<close>, the model class's own \<^verbatim>\<open>build_model\<close>,
  the instance's \<^verbatim>\<open>load_state_dict(..., strict=True)\<close>, and OmegaConf's resolution of
  an interpolation string read from a \<^verbatim>\<open>DictConfig\<close> with the given content. Each may
  raise.
\<close>

type_synonym state_dict = "(string \<times> int list) list"

type_synonym task = string

record checkpoint =
  ckpt_cfg_model :: cfg
  ckpt_model :: state_dict

record model_instance =
  inst_cls :: cls
  inst_cfg :: cfg
  inst_task :: "task option"
  inst_state :: state_dict

record collaborators =
  merge_with_parent_impl :: "dataclass \<Rightarrow> cfg \<Rightarrow> bool \<Rightarrow> error + cfg"
  populate_dataclass_impl :: "dataclass \<Rightarrow> cfg \<Rightarrow> error + cfg"
  load_checkpoint_to_cpu :: "string \<Rightarrow> error + checkpoint"
  model_build_model :: "cls \<Rightarrow> cfg \<Rightarrow> task option \<Rightarrow> error + model_instance"
  load_state_dict :: "model_instance \<Rightarrow> state_dict \<Rightarrow> error + model_instance"
  resolve_interpolation :: "(string \<times> cfg_value) list \<Rightarrow> string \<Rightarrow> error + cfg_value"

text \<open>
  Reading a key of a \<^verbatim>\<open>DictConfig\<close>, by attribute or by \<^verbatim>\<open>cfg[k]\<close>: an absent key is
  \<open>None\<close>; the string \<^verbatim>\<open>???\<close> marks a mandatory value that is missing, and reading it
  raises \<^verbatim>\<open>MissingMandatoryValue\<close>; a string containing \<^verbatim>\<open>${\<close> is an interpolation,
  and reading it gives what OmegaConf resolves it to, or raises; any other value is read
  as stored.
\<close>

fun is_interpolation :: "string \<Rightarrow> bool" where
  "is_interpolation (a # b # r) =
     ((a = CHR ''$'' \<and> b = CHR ''{'') \<or> is_interpolation (b # r))"
| "is_interpolation r = False"

definition dictconfig_get ::
  "collaborators \<Rightarrow> (string \<times> cfg_value) list \<Rightarrow> string \<Rightarrow> error + cfg_value option" where
  "dictconfig_get X e k =
     (case map_of e k of
        None \<Rightarrow> Inr None
      | Some v \<Rightarrow>
          (case v of
             VStr str \<Rightarrow>
               if str = ''???'' then Inl (MissingMandatoryValue k)
               else if is_interpolation str then
                 (case resolve_interpolation X e str of
                    Inl err \<Rightarrow> Inl err
                  | Inr r \<Rightarrow> Inr (Some r))
               else Inr (Some v)
           | _ \<Rightarrow> Inr (Some v)))"

text \<open>
  Attribute access on a configuration. \<open>cfg_read\<close> is the attribute lookup itself, with
  \<open>None\<close> for \<^verbatim>\<open>AttributeError\<close>: a \<^verbatim>\<open>DictConfig\<close> reads its key, an
  \<^verbatim>\<open>argparse.Namespace\<close> and a dataclass instance hold the value as stored, a \<^verbatim>\<open>dict\<close>
  and a scalar have none of the attributes read here (\<^verbatim>\<open>_name\<close>, \<^verbatim>\<open>arch\<close>,
  \<^verbatim>\<open>no_pretrained_weights\<close>) and refuse the assignment. \<^verbatim>\<open>getattr(cfg, k, None)\<close> and
  \<^verbatim>\<open>hasattr(cfg, k)\<close> catch \<^verbatim>\<open>AttributeError\<close> only, so any other raise of the lookup
  is theirs.
\<close>

fun cfg_fields :: "cfg \<Rightarrow> (string \<times> cfg_value) list option" where
  "cfg_fields (DictConfig e) = Some e"
| "cfg_fields (PlainDict e) = None"
| "cfg_fields (Namespace e) = Some e"
| "cfg_fields (DataclassObj e) = Some e"
| "cfg_fields (Scalar v) = None"

fun cfg_read :: "collaborators \<Rightarrow> cfg \<Rightarrow> string \<Rightarrow> error + cfg_value option" where
  "cfg_read X (DictConfig e) k = dictconfig_get X e k"
| "cfg_read X (Namespace e) k = Inr (map_of e k)"
| "cfg_read X (DataclassObj e) k = Inr (map_of e k)"
| "cfg_read X (PlainDict e) k = Inr None"
| "cfg_read X (Scalar v) k = Inr None"

definition cfg_getattr :: "collaborators \<Rightarrow> cfg \<Rightarrow> string \<Rightarrow> error + cfg_value" where
  "cfg_getattr X c k =
     (case cfg_read X c k of
        Inl err \<Rightarrow> Inl err
      | Inr None \<Rightarrow> Inr VNone
      | Inr (Some v) \<Rightarrow> Inr v)"

definition cfg_hasattr :: "collaborators \<Rightarrow> cfg \<Rightarrow> string \<Rightarrow> error + bool" where
  "cfg_hasattr X c k =
     (case cfg_read X c k of
        Inl err \<Rightarrow> Inl err
      | Inr None \<Rightarrow> Inr False
      | Inr (Some v) \<Rightarrow> Inr True)"

fun cfg_setattr :: "cfg \<Rightarrow> string \<Rightarrow> cfg_value \<Rightarrow> error + cfg" where
  "cfg_setattr (DictConfig e) k v = Inr (DictConfig (AList.update k v e))"
| "cfg_setattr (Namespace e) k v = Inr (Namespace (AList.update k v e))"
| "cfg_setattr (DataclassObj e) k v = Inr (DataclassObj (AList.update k v e))"
| "cfg_setattr (PlainDict e) k v = Inl AttributeError"
| "cfg_setattr (Scalar x) k v = Inl AttributeError"

text \<open>Lines 43-44: \<^verbatim>\<open>OmegaConf.create(cfg)\<close> for a plain \<^verbatim>\<open>dict\<close>, same keys and values.\<close>

definition omegaconf_create :: "cfg \<Rightarrow> cfg" where
  "omegaconf_create c = (case c of PlainDict e \<Rightarrow> DictConfig e | _ \<Rightarrow> c)"

text \<open>
  \<^verbatim>\<open>k in REGISTRY\<close> and \<^verbatim>\<open>REGISTRY[k]\<close> for a key read from a configuration: the tables
  are keyed by strings, so any other value is not a key.
\<close>

definition registry_get :: "(name, 'v) dict \<Rightarrow> cfg_value \<Rightarrow> 'v option" where
  "registry_get d v = (case v of VStr k \<Rightarrow> map_of d k | _ \<Rightarrow> None)"

text \<open>
  Line 45: \<^verbatim>\<open>getattr(cfg, "_name", None) or getattr(cfg, "arch", None)\<close>; \<^verbatim>\<open>arch\<close> is
  read only when \<^verbatim>\<open>_name\<close> is false.
\<close>

definition model_type_of :: "collaborators \<Rightarrow> cfg \<Rightarrow> error + cfg_value" where
  "model_type_of X c =
     (case cfg_getattr X c ''_name'' of
        Inl err \<Rightarrow> Inl err
      | Inr n \<Rightarrow> if truthy n then Inr n else cfg_getattr X c ''arch'')"

text \<open>Line 52, \<^verbatim>\<open>cfg = cfg[model_type]\<close>: the value read under the key becomes the configuration.\<close>

definition to_cfg :: "cfg_value \<Rightarrow> cfg" where
  "to_cfg v = (case v of VDict e \<Rightarrow> DictConfig e | _ \<Rightarrow> Scalar v)"

text \<open>
  Lines 43-60: the model type and the configuration that the rest of \<^verbatim>\<open>build_model\<close>
  works on. \<^verbatim>\<open>len(cfg)\<close> is a \<^verbatim>\<open>TypeError\<close> on an object that is not a mapping.
\<close>

definition infer_model_type ::
  "collaborators \<Rightarrow> registries \<Rightarrow> cfg \<Rightarrow> error + (cfg_value \<times> cfg)" where
  "infer_model_type X s c0 =
     (let c = omegaconf_create c0 in
      case model_type_of X c of
        Inl err \<Rightarrow> Inl err
      | Inr model_type \<Rightarrow>
          if \<not> truthy model_type then
            (case c of
               DictConfig e \<Rightarrow>
                 (case e of
                    [(k, v)] \<Rightarrow>
                      if k \<in> set (keys (MODEL_DATACLASS_REGISTRY s)) then
                        (case dictconfig_get X e k of
                           Inl err \<Rightarrow> Inl err
                         | Inr None \<Rightarrow> Inl (KeyError k)
                         | Inr (Some v') \<Rightarrow> Inr (VStr k, to_cfg v'))
                      else Inl (DirectoryInferFailed (keys (MODEL_DATACLASS_REGISTRY s)) k)
                  | _ \<Rightarrow> Inr (model_type, c))
             | _ \<Rightarrow> Inl TypeError)
          else Inr (model_type, c))"

text \<open>Lines 62-67: the model class; \<open>None\<close> is Python's \<^verbatim>\<open>model = None\<close> of line 42.\<close>

definition lookup_model :: "registries \<Rightarrow> cfg_value \<Rightarrow> error + cls option" where
  "lookup_model s model_type =
     (case registry_get (ARCH_MODEL_REGISTRY s) model_type of
        Some c \<Rightarrow> Inr (Some c)
      | None \<Rightarrow>
          (case model_type of
             VStr k \<Rightarrow>
               if k \<in> set (keys (MODEL_DATACLASS_REGISTRY s)) then
                 (case map_of (MODEL_REGISTRY s) k of
                    None \<Rightarrow> Inl (KeyError k)
                  | Some c \<Rightarrow> Inr (Some c))
               else Inr None
           | _ \<Rightarrow> Inr None))"

text \<open>
  Lines 69-83: schema defaults when a schema is registered for the model type, else the
  architecture function when one is registered, else nothing.
\<close>

definition reconcile_cfg ::
  "collaborators \<Rightarrow> registries \<Rightarrow> cfg_value \<Rightarrow> cfg \<Rightarrow> bool \<Rightarrow> error + cfg" where
  "reconcile_cfg X s model_type c from_checkpoint =
     (case registry_get (MODEL_DATACLASS_REGISTRY s) model_type of
        Some dc \<Rightarrow>
          (case c of
             Namespace e \<Rightarrow> populate_dataclass_impl X dc c
           | _ \<Rightarrow> merge_with_parent_impl X dc c from_checkpoint)
      | None \<Rightarrow>
          (case registry_get (ARCH_CONFIG_REGISTRY s) model_type of
             Some f \<Rightarrow> Inr (f c)
           | None \<Rightarrow> Inr c))"

text \<open>
  Lines 85-91: the assertion. Its message is built from the configuration, the keys of
  \<^verbatim>\<open>MODEL_DATACLASS_REGISTRY\<close> and the model type, which \<^verbatim>\<open>+\<close> accepts only as a string.
\<close>

definition assert_model ::
  "registries \<Rightarrow> cls option \<Rightarrow> cfg_value \<Rightarrow> cfg \<Rightarrow> error + (cls \<times> cfg)" where
  "assert_model s model model_type c =
     (case model of
        Some m \<Rightarrow> Inr (m, c)
      | None \<Rightarrow>
          (case model_type of
             VStr t \<Rightarrow> Inl (ModelTypeNotFound c (keys (MODEL_DATACLASS_REGISTRY s)) t)
           | _ \<Rightarrow> Inl TypeError))"

text \<open>Lines 43-91 of \<^verbatim>\<open>build_model\<close>: the model class and the resolved configuration.\<close>

definition resolve ::
  "collaborators \<Rightarrow> registries \<Rightarrow> cfg \<Rightarrow> bool \<Rightarrow> error + (cls \<times> cfg)" where
  "resolve X s c from_checkpoint =
     (case infer_model_type X s c of
        Inl e \<Rightarrow> Inl e
      | Inr (model_type, c1) \<Rightarrow>
          (case lookup_model s model_type of
             Inl e \<Rightarrow> Inl e
           | Inr model \<Rightarrow>
               (case reconcile_cfg X s model_type c1 from_checkpoint of
                  Inl e \<Rightarrow> Inl e
                | Inr c2 \<Rightarrow> assert_model s model model_type c2)))"

text \<open>\<^verbatim>\<open>build_model(cfg, task, from_checkpoint, checkpoint_path)\<close>, lines 36-98.\<close>

definition build_model ::
  "collaborators \<Rightarrow> registries \<Rightarrow> cfg \<Rightarrow> task option \<Rightarrow> bool \<Rightarrow> string option
     \<Rightarrow> error + model_instance" where
  "build_model X s c task from_checkpoint checkpoint_path =
     (case resolve X s c from_checkpoint of
        Inl e \<Rightarrow> Inl e
      | Inr (model, c2) \<Rightarrow>
          (case model_build_model X model c2 task of
             Inl e \<Rightarrow> Inl e
           | Inr model_instance \<Rightarrow>
               (case checkpoint_path of
                  None \<Rightarrow> Inr model_instance
                | Some p \<Rightarrow>
                    if from_checkpoint then
                      (case load_checkpoint_to_cpu X p of
                         Inl e \<Rightarrow> Inl e
                       | Inr state \<Rightarrow> load_state_dict X model_instance (ckpt_model state))
                    else Inr model_instance)))"


text \<open>
  Modelled from the spec: \<^verbatim>\<open>merge_with_parent\<close> of \<^verbatim>\<open>fairseq_signals.dataclass.utils\<close>,
  whose code is not among the sources. Section 4.4, step 4: construct the schema
  defaults, then merge the caller-supplied fields onto the defaults; caller values win;
  a field absent in the defaults is rejected unless the loading-from-checkpoint flag is
  set, which relaxes strictness (such a field is then left out of the result). The
  result is a \<^verbatim>\<open>DictConfig\<close> with the fields of the schema, in the schema's order.
\<close>

definition merge_with_parent :: "dataclass \<Rightarrow> cfg \<Rightarrow> bool \<Rightarrow> error + cfg" where
  "merge_with_parent dc c from_checkpoint =
     (case cfg_fields c of
        None \<Rightarrow> Inl TypeError
      | Some e \<Rightarrow>
          (case filter (\<lambda>k. k \<notin> set (keys (dc_defaults dc))) (keys e) of
             k # _ \<Rightarrow>
               if from_checkpoint then
                 Inr (DictConfig
                   (map (\<lambda>(f, d). (f, case map_of e f of None \<Rightarrow> d | Some v \<Rightarrow> v))
                      (dc_defaults dc)))
               else Inl (UnknownField k)
           | [] \<Rightarrow>
               Inr (DictConfig
                 (map (\<lambda>(f, d). (f, case map_of e f of None \<Rightarrow> d | Some v \<Rightarrow> v))
                    (dc_defaults dc)))))"

section \<open>Sequences of registration calls\<close>

text \<open>
  A registration call, and the tables after a sequence of calls made from the empty
  tables, each call leaving the tables as they are when it returns or raises.
\<close>

datatype registration_call =
    RegisterModel name "dataclass option" cls
  | RegisterModelArchitecture name name py_obj

fun perform :: "registration_call \<Rightarrow> registries \<Rightarrow> registries" where
  "perform (RegisterModel nm dataclass c) s = snd (register_model nm dataclass c s)"
| "perform (RegisterModelArchitecture model_name arch_name fn) s =
     snd (register_model_architecture model_name arch_name fn s)"

definition run :: "registration_call list \<Rightarrow> registries" where
  "run calls = fold perform calls empty_registries"

text \<open>
  The consistency of the tables that registration maintains: the three architecture
  tables have the same keys, the class stored for an architecture is the class stored
  for its model name, and every schema name is a model name.
\<close>

definition registries_consistent :: "registries \<Rightarrow> bool" where
  "registries_consistent s \<longleftrightarrow>
     set (keys (ARCH_MODEL_REGISTRY s)) = set (keys (ARCH_MODEL_NAME_REGISTRY s))
     \<and> set (keys (ARCH_MODEL_NAME_REGISTRY s)) = set (keys (ARCH_CONFIG_REGISTRY s))
     \<and> (\<forall>a \<in> set (keys (ARCH_MODEL_REGISTRY s)).
          \<exists>m c. map_of (ARCH_MODEL_NAME_REGISTRY s) a = Some m
            \<and> map_of (ARCH_MODEL_REGISTRY s) a = Some c
            \<and> map_of (MODEL_REGISTRY s) m = Some c)
     \<and> set (keys (MODEL_DATACLASS_REGISTRY s)) \<subseteq> set (keys (MODEL_REGISTRY s))"


section \<open>Example classes, schemas, calls and collaborators\<close>

definition lstm_cls :: cls where
  "lstm_cls = \<lparr>cls_name = ''LSTM'', extends_BaseModel = True\<rparr>"

definition tiny_cls :: cls where
  "tiny_cls = \<lparr>cls_name = ''Tiny'', extends_BaseModel = True\<rparr>"

definition tiny_config :: dataclass where
  "tiny_config =
     \<lparr>dc_name = ''TinyConfig'', extends_Dataclass = True,
      dc_defaults = [(''_name'', VNone), (''embed_dim'', VInt 256)]\<rparr>"

definition tiny_named_config :: dataclass where
  "tiny_named_config =
     \<lparr>dc_name = ''TinyNamedConfig'', extends_Dataclass = True,
      dc_defaults = [(''_name'', VStr ''tiny''), (''embed_dim'', VInt 256)]\<rparr>"

definition plain_class :: dataclass where
  "plain_class = \<lparr>dc_name = ''object'', extends_Dataclass = False, dc_defaults = []\<rparr>"

text \<open>An architecture function that sets \<^verbatim>\<open>hidden_dim\<close> to 128 if it is absent.\<close>

definition lstm_small :: "cfg \<Rightarrow> cfg" where
  "lstm_small c =
     (case cfg_fields c of
        None \<Rightarrow> c
      | Some e \<Rightarrow>
          if ''hidden_dim'' \<in> set (keys e) then c
          else (case cfg_setattr c ''hidden_dim'' (VInt 128) of Inl err \<Rightarrow> c | Inr c' \<Rightarrow> c'))"

definition legacy_calls :: "registration_call list" where
  "legacy_calls =
     [RegisterModel ''lstm'' None lstm_cls,
      RegisterModelArchitecture ''lstm'' ''lstm_small'' (Function lstm_small)]"

text \<open>
  The third call raises on line 190 (the architecture name \<^verbatim>\<open>tiny\<close> is taken) after
  lines 136 and 144 have entered the model and its schema.
\<close>

definition shadowing_calls :: "registration_call list" where
  "shadowing_calls =
     [RegisterModel ''lstm'' None lstm_cls,
      RegisterModelArchitecture ''lstm'' ''tiny'' (Function lstm_small)]"

definition shadowed_calls :: "registration_call list" where
  "shadowed_calls =
     [RegisterModel ''lstm'' None lstm_cls,
      RegisterModelArchitecture ''lstm'' ''tiny'' (Function lstm_small),
      RegisterModel ''tiny'' (Some tiny_config) tiny_cls]"

definition schema_calls :: "registration_call list" where
  "schema_calls = [RegisterModel ''tiny'' (Some tiny_config) tiny_cls]"

definition named_schema_calls :: "registration_call list" where
  "named_schema_calls = [RegisterModel ''tiny'' (Some tiny_named_config) tiny_cls]"

text \<open>
  Tables in which the model \<^verbatim>\<open>tiny\<close> and its schema are entered and no architecture is:
  what lines 136 and 144 have written when the registration stops before line 151.
\<close>

definition schema_only_tables :: registries where
  "schema_only_tables =
     empty_registries
       \<lparr>MODEL_REGISTRY := [(''tiny'', tiny_cls)],
        MODEL_DATACLASS_REGISTRY := [(''tiny'', tiny_config)]\<rparr>"

definition example_checkpoint :: checkpoint where
  "example_checkpoint =
     \<lparr>ckpt_cfg_model =
        DictConfig [(''_name'', VStr ''tiny''), (''no_pretrained_weights'', VBool False)],
      ckpt_model = [(''encoder.weight'', [1, 2, 3])]\<rparr>"

definition example_collaborators :: collaborators where
  "example_collaborators =
     \<lparr>merge_with_parent_impl = merge_with_parent,
      populate_dataclass_impl = (\<lambda>dc c. merge_with_parent dc c False),
      load_checkpoint_to_cpu =
        (\<lambda>p. if p = ''checkpoint.pt'' then Inr example_checkpoint
             else Inl (ExternalError ''FileNotFoundError'')),
      model_build_model =
        (\<lambda>m c t. Inr \<lparr>inst_cls = m, inst_cfg = c, inst_task = t, inst_state = []\<rparr>),
      load_state_dict = (\<lambda>i sd. Inr (i\<lparr>inst_state := sd\<rparr>)),
      resolve_interpolation = (\<lambda>e str. Inl (ExternalError ''InterpolationKeyError''))\<rparr>"

section \<open>Facts about dictionaries and attribute access\<close>

lemmas example_defs =
  run_def legacy_calls_def shadowing_calls_def shadowed_calls_def schema_calls_def
  named_schema_calls_def schema_only_tables_def
  lstm_cls_def tiny_cls_def tiny_config_def tiny_named_config_def plain_class_def
  example_checkpoint_def example_collaborators_def empty_registries_def
  register_model_def register_model_architecture_def keys_def Let_def

lemmas build_defs =
  resolve_def infer_model_type_def omegaconf_create_def model_type_of_def cfg_getattr_def
  cfg_hasattr_def dictconfig_get_def lookup_model_def registry_get_def reconcile_cfg_def
  assert_model_def to_cfg_def merge_with_parent_def build_model_def Let_def

lemma keys_update: "set (keys (AList.update k v d)) = insert k (set (keys d))"
  using dom_update [of k v d] by (simp add: keys_def)


lemma in_keys_iff: "k \<in> set (keys d) \<longleftrightarrow> map_of d k \<noteq> None"
  by (simp add: keys_def map_of_eq_None_iff)




section \<open>Registration: errors and what they leave behind\<close>

text \<open>
  C2: if a model is already registered under a name, a further \<^verbatim>\<open>register_model\<close> under
  that name raises the duplicate-model error, and every table, \<^verbatim>\<open>MODEL_REGISTRY\<close>
  included, is after the call what it was before.
\<close>

theorem register_model_duplicate_fails:
  assumes "nm \<in> set (keys (MODEL_REGISTRY s))"
  shows "register_model nm dataclass c s = (Some (DuplicateModel nm), s)"
  using assms by (simp add: register_model_def)

theorem register_model_duplicate_fails_witness:
  "''lstm'' \<in> set (keys (MODEL_REGISTRY (run legacy_calls)))
   \<and> register_model ''lstm'' (Some tiny_config) tiny_cls (run legacy_calls)
       = (Some (DuplicateModel ''lstm''), run legacy_calls)"
proof -
  have h: "''lstm'' \<in> set (keys (MODEL_REGISTRY (run legacy_calls)))"
    by (simp add: example_defs)
  from h register_model_duplicate_fails [OF h] show ?thesis by simp
qed

text \<open>
  C3: \<^verbatim>\<open>register_model(name, dataclass)\<close> on a class that extends \<^verbatim>\<open>BaseModel\<close>, under a
  name not yet taken, with a \<^verbatim>\<open>dataclass\<close> that does not extend \<^verbatim>\<open>Dataclass\<close>, raises;
  after the raise \<^verbatim>\<open>MODEL_REGISTRY\<close> maps the name to the class, so the table is not
  what it was before the call.
\<close>

theorem register_model_bad_dataclass_not_rolled_back:
  assumes "nm \<notin> set (keys (MODEL_REGISTRY s))"
    and "extends_BaseModel c"
    and "\<not> extends_Dataclass dc"
  shows "fst (register_model nm (Some dc) c s) = Some (NotDataclass dc)
         \<and> map_of (MODEL_REGISTRY (snd (register_model nm (Some dc) c s))) nm = Some c
         \<and> MODEL_REGISTRY (snd (register_model nm (Some dc) c s)) \<noteq> MODEL_REGISTRY s"
proof -
  let ?s' = "s\<lparr>MODEL_REGISTRY := AList.update nm c (MODEL_REGISTRY s)\<rparr>"
  have r: "register_model nm (Some dc) c s = (Some (NotDataclass dc), ?s')"
    using assms by (simp add: register_model_def)
  have "nm \<in> set (keys (MODEL_REGISTRY ?s'))"
    by (simp add: keys_update)
  with assms(1) have "MODEL_REGISTRY ?s' \<noteq> MODEL_REGISTRY s"
    by metis
  with r show ?thesis
    by (simp add: update_conv')
qed

theorem register_model_bad_dataclass_witness:
  "''tiny'' \<notin> set (keys (MODEL_REGISTRY (run legacy_calls)))
   \<and> extends_BaseModel tiny_cls \<and> \<not> extends_Dataclass plain_class
   \<and> fst (register_model ''tiny'' (Some plain_class) tiny_cls (run legacy_calls))
       = Some (NotDataclass plain_class)
   \<and> map_of (MODEL_REGISTRY
        (snd (register_model ''tiny'' (Some plain_class) tiny_cls (run legacy_calls)))) ''tiny''
       = Some tiny_cls"
proof -
  have h1: "''tiny'' \<notin> set (keys (MODEL_REGISTRY (run legacy_calls)))"
    by (simp add: example_defs)
  have h2: "extends_BaseModel tiny_cls" by (simp add: tiny_cls_def)
  have h3: "\<not> extends_Dataclass plain_class" by (simp add: plain_class_def)
  from h1 h2 h3 register_model_bad_dataclass_not_rolled_back [OF h1 h2 h3]
  show ?thesis by simp
qed

text \<open>
  C6: \<^verbatim>\<open>register_model_architecture(m, a)(fn)\<close> with \<^verbatim>\<open>m\<close> not in \<^verbatim>\<open>MODEL_REGISTRY\<close>
  raises the unknown-model error, whatever the architecture name, the function and the
  content of the architecture tables, and changes no table.
\<close>

theorem register_architecture_unknown_model:
  assumes "model_name \<notin> set (keys (MODEL_REGISTRY s))"
  shows "register_model_architecture model_name arch_name fn s
           = (Some (UnknownModelType model_name), s)"
  using assms by (simp add: register_model_architecture_def in_keys_iff)

theorem register_architecture_unknown_model_witness:
  "''gru'' \<notin> set (keys (MODEL_REGISTRY (run legacy_calls)))
   \<and> register_model_architecture ''gru'' ''lstm_small'' NonCallable (run legacy_calls)
       = (Some (UnknownModelType ''gru''), run legacy_calls)"
proof -
  have h: "''gru'' \<notin> set (keys (MODEL_REGISTRY (run legacy_calls)))"
    by (simp add: example_defs)
  from h register_architecture_unknown_model [OF h] show ?thesis by simp
qed





section \<open>The tables after any sequence of registration calls\<close>

lemma register_model_architecture_consistent:
  assumes "registries_consistent s"
  shows "registries_consistent (snd (register_model_architecture m a fn s))"
proof (cases "map_of (MODEL_REGISTRY s) m")
  case None
  with assms show ?thesis by (simp add: register_model_architecture_def)
next
  case (Some c)
  show ?thesis
  proof (cases "a \<in> set (keys (ARCH_MODEL_REGISTRY s))")
    case True
    with Some assms show ?thesis by (simp add: register_model_architecture_def)
  next
    case False
    show ?thesis
    proof (cases fn)
      case NonCallable
      with Some False assms show ?thesis by (simp add: register_model_architecture_def)
    next
      case (Function f)
      with Some False assms show ?thesis
        unfolding registries_consistent_def
        by (auto simp add: register_model_architecture_def keys_update update_conv')
    qed
  qed
qed

lemma consistent_add_model:
  assumes "registries_consistent s" and "nm \<notin> set (keys (MODEL_REGISTRY s))"
  shows "registries_consistent (s\<lparr>MODEL_REGISTRY := AList.update nm c (MODEL_REGISTRY s)\<rparr>)"
proof -
  have "map_of (AList.update nm c (MODEL_REGISTRY s)) m = Some x"
    if "map_of (MODEL_REGISTRY s) m = Some x" for m x
  proof -
    from that assms(2) have "m \<noteq> nm" by (auto simp: in_keys_iff)
    with that show ?thesis by (simp add: update_conv')
  qed
  with assms(1) show ?thesis
    unfolding registries_consistent_def
    by (simp add: keys_update) blast
qed

lemma consistent_add_dataclass:
  assumes "registries_consistent s" and "nm \<in> set (keys (MODEL_REGISTRY s))"
  shows "registries_consistent
           (s\<lparr>cls_dataclass := cd, MODEL_DATACLASS_REGISTRY :=
                 AList.update nm dc (MODEL_DATACLASS_REGISTRY s), config_store := cs\<rparr>)"
  using assms unfolding registries_consistent_def by (simp add: keys_update)

lemma consistent_set_attr:
  assumes "registries_consistent s"
  shows "registries_consistent (s\<lparr>cls_dataclass := cd\<rparr>)"
  using assms unfolding registries_consistent_def by simp

lemma register_model_consistent:
  assumes "registries_consistent s"
  shows "registries_consistent (snd (register_model nm dataclass c s))"
proof (cases "nm \<in> set (keys (MODEL_REGISTRY s)) \<or> \<not> extends_BaseModel c")
  case True
  with assms show ?thesis by (auto simp add: register_model_def)
next
  case ok: False
  let ?s1 = "s\<lparr>MODEL_REGISTRY := AList.update nm c (MODEL_REGISTRY s)\<rparr>"
  from ok assms have c1: "registries_consistent ?s1"
    by (simp add: consistent_add_model)
  have in1: "nm \<in> set (keys (MODEL_REGISTRY ?s1))" by (simp add: keys_update)
  show ?thesis
  proof (cases dataclass)
    case None
    with ok show ?thesis
      using consistent_set_attr [OF c1] by (simp add: register_model_def)
  next
    case (Some dc)
    show ?thesis
    proof (cases "extends_Dataclass dc")
      case False
      with ok Some c1 show ?thesis by (simp add: register_model_def)
    next
      case True
      with ok Some show ?thesis
        using register_model_architecture_consistent
                [OF consistent_add_dataclass [OF c1 in1]]
        by (simp add: register_model_def)
    qed
  qed
qed

lemma perform_consistent:
  "registries_consistent s \<Longrightarrow> registries_consistent (perform call s)"
  by (cases call)
    (simp_all add: register_model_consistent register_model_architecture_consistent)

lemma fold_perform_consistent:
  "registries_consistent s \<Longrightarrow> registries_consistent (fold perform calls s)"
  by (induction calls arbitrary: s) (simp_all add: perform_consistent)

lemma empty_consistent: "registries_consistent empty_registries"
  by (simp add: registries_consistent_def empty_registries_def keys_def)

text \<open>
  C10: after every sequence of registration calls, whether each returned or raised,
  \<^verbatim>\<open>ARCH_MODEL_REGISTRY\<close>, \<^verbatim>\<open>ARCH_MODEL_NAME_REGISTRY\<close> and \<^verbatim>\<open>ARCH_CONFIG_REGISTRY\<close> have
  the same keys, \<^verbatim>\<open>ARCH_MODEL_REGISTRY[a]\<close> is
  \<^verbatim>\<open>MODEL_REGISTRY[ARCH_MODEL_NAME_REGISTRY[a]]\<close> for every architecture name \<^verbatim>\<open>a\<close>, and
  every key of \<^verbatim>\<open>MODEL_DATACLASS_REGISTRY\<close> is a key of \<^verbatim>\<open>MODEL_REGISTRY\<close>.
\<close>

theorem registries_consistent_after_calls:
  "registries_consistent (run calls)"
  unfolding run_def by (rule fold_perform_consistent [OF empty_consistent])

theorem registries_consistent_after_calls_witness:
  "set (keys (ARCH_MODEL_REGISTRY (run shadowed_calls)))
     = set (keys (ARCH_CONFIG_REGISTRY (run shadowed_calls)))
   \<and> map_of (ARCH_MODEL_REGISTRY (run shadowed_calls)) ''tiny''
       = map_of (MODEL_REGISTRY (run shadowed_calls)) ''lstm''
   \<and> set (keys (MODEL_DATACLASS_REGISTRY (run shadowed_calls)))
       \<subseteq> set (keys (MODEL_REGISTRY (run shadowed_calls)))"
proof -
  have a: "''tiny'' \<in> set (keys (ARCH_MODEL_REGISTRY (run shadowed_calls)))"
    by (simp add: example_defs)
  have n: "map_of (ARCH_MODEL_NAME_REGISTRY (run shadowed_calls)) ''tiny'' = Some ''lstm''"
    by (simp add: example_defs)
  from a n registries_consistent_after_calls [of shadowed_calls]
  show ?thesis unfolding registries_consistent_def by fastforce
qed

section \<open>Building: model type, model class and resolved configuration\<close>

lemma infer_keeps_cfg:
  assumes "infer_model_type X s c = Inr (model_type, c1)"
    and "registry_get (MODEL_DATACLASS_REGISTRY s) model_type = None"
  shows "c1 = omegaconf_create c"
  using assms
  by (auto simp add: infer_model_type_def Let_def registry_get_def in_keys_iff
      split: if_splits cfg.splits list.splits prod.splits sum.splits option.splits)

lemma lookup_model_no_schema:
  assumes "registry_get (MODEL_DATACLASS_REGISTRY s) model_type = None"
  shows "lookup_model s model_type = Inr (registry_get (ARCH_MODEL_REGISTRY s) model_type)"
  using assms
  by (auto simp add: lookup_model_def registry_get_def in_keys_iff
      split: option.splits cfg_value.splits)

lemma infer_explicit:
  assumes "model_type_of X (omegaconf_create c) = Inr (VStr t)" and "t \<noteq> []"
  shows "infer_model_type X s c = Inr (VStr t, omegaconf_create c)"
  using assms by (simp add: infer_model_type_def)





text \<open>
  C4: when neither a schema nor an architecture function is registered for the model
  type that \<^verbatim>\<open>build_model\<close> determined, lines 69-83 hand the configuration on as they
  received it, and it is the configuration the caller passed (a plain \<^verbatim>\<open>dict\<close> wrapped
  by line 44, keys and values kept): that configuration is what the assertion of line
  85 lets through or reports.
\<close>

theorem unregistered_type_config_unmodified:
  assumes "infer_model_type X s c = Inr (model_type, c1)"
    and "registry_get (MODEL_DATACLASS_REGISTRY s) model_type = None"
    and "registry_get (ARCH_CONFIG_REGISTRY s) model_type = None"
  shows "c1 = omegaconf_create c
         \<and> reconcile_cfg X s model_type c1 from_checkpoint = Inr (omegaconf_create c)
         \<and> resolve X s c from_checkpoint
             = assert_model s (registry_get (ARCH_MODEL_REGISTRY s) model_type) model_type
                 (omegaconf_create c)"
proof -
  have eq: "c1 = omegaconf_create c" using assms(1,2) by (rule infer_keeps_cfg)
  have rc: "reconcile_cfg X s model_type c1 from_checkpoint = Inr c1"
    using assms(2,3) by (simp add: reconcile_cfg_def)
  have "resolve X s c from_checkpoint
          = assert_model s (registry_get (ARCH_MODEL_REGISTRY s) model_type) model_type c1"
    using assms(1) rc lookup_model_no_schema [OF assms(2)]
    by (simp add: resolve_def)
  with eq rc show ?thesis by simp
qed

theorem unregistered_type_config_unmodified_witness:
  "infer_model_type example_collaborators (run legacy_calls)
     (DictConfig [(''arch'', VStr ''gru''), (''layers'', VInt 2)])
     = Inr (VStr ''gru'', DictConfig [(''arch'', VStr ''gru''), (''layers'', VInt 2)])
   \<and> registry_get (MODEL_DATACLASS_REGISTRY (run legacy_calls)) (VStr ''gru'') = None
   \<and> registry_get (ARCH_CONFIG_REGISTRY (run legacy_calls)) (VStr ''gru'') = None
   \<and> reconcile_cfg example_collaborators (run legacy_calls) (VStr ''gru'')
        (DictConfig [(''arch'', VStr ''gru''), (''layers'', VInt 2)]) False
       = Inr (DictConfig [(''arch'', VStr ''gru''), (''layers'', VInt 2)])
   \<and> resolve example_collaborators (run legacy_calls)
        (DictConfig [(''arch'', VStr ''gru''), (''layers'', VInt 2)]) False
       = Inl (ModelTypeNotFound (DictConfig [(''arch'', VStr ''gru''), (''layers'', VInt 2)])
                [] ''gru'')"
proof -
  let ?c = "DictConfig [(''arch'', VStr ''gru''), (''layers'', VInt 2)]"
  have h1: "infer_model_type example_collaborators (run legacy_calls) ?c
              = Inr (VStr ''gru'', ?c)"
    by (simp add: build_defs)
  have h2: "registry_get (MODEL_DATACLASS_REGISTRY (run legacy_calls)) (VStr ''gru'') = None"
    by (simp add: example_defs registry_get_def)
  have h3: "registry_get (ARCH_CONFIG_REGISTRY (run legacy_calls)) (VStr ''gru'') = None"
    by (simp add: example_defs registry_get_def)
  have n: "omegaconf_create ?c = ?c" by (simp add: omegaconf_create_def)
  have a: "assert_model (run legacy_calls)
             (registry_get (ARCH_MODEL_REGISTRY (run legacy_calls)) (VStr ''gru''))
             (VStr ''gru'') ?c
           = Inl (ModelTypeNotFound ?c [] ''gru'')"
    by (simp add: example_defs registry_get_def assert_model_def)
  from h1 h2 h3 a n
    unregistered_type_config_unmodified [OF h1 h2 h3, of False]
  show ?thesis by simp
qed

text \<open>
  A configuration whose \<^verbatim>\<open>arch\<close> is the marker \<^verbatim>\<open>???\<close> has no model type: the read of line
  45 raises.
\<close>

lemma build_missing_arch_raises:
  "build_model X s (PlainDict [(''arch'', VStr ''???'')]) task from_checkpoint checkpoint_path
     = Inl (MissingMandatoryValue ''arch'')"
  by (simp add: build_defs)



section \<open>Directory form and flat form of a configuration\<close>

lemma merge_no_overrides:
  "merge_with_parent dc (DictConfig []) fc = Inr (DictConfig (dc_defaults dc))"
  by (simp add: merge_with_parent_def keys_def)

lemma merge_only_name:
  assumes "''_name'' \<in> set (keys (dc_defaults dc))"
  shows "merge_with_parent dc (DictConfig [(''_name'', VStr t)]) fc
           = Inr (DictConfig
               (map (\<lambda>(f, d). (f, if f = ''_name'' then VStr t else d)) (dc_defaults dc)))"
proof -
  have "(\<lambda>(f, d). (f, case map_of [(''_name'', VStr t)] f of None \<Rightarrow> d | Some v \<Rightarrow> v))
          = (\<lambda>(f, d). (f, if f = ''_name'' then VStr t else d))"
    by (rule ext) (simp split: prod.splits)
  with assms show ?thesis
    by (simp add: merge_with_parent_def keys_def)
qed

lemma name_default_is_name:
  assumes "\<forall>d. (''_name'', d) \<in> set D \<longrightarrow> d = VStr t"
  shows "map (\<lambda>(f, d). (f, if f = ''_name'' then VStr t else d)) D = D"
  using assms by (intro map_idI) auto

lemma infer_directory_known:
  assumes "map_of (MODEL_DATACLASS_REGISTRY s) t = Some dc"
  shows "infer_model_type X s (PlainDict [(t, VDict [])]) = Inr (VStr t, DictConfig [])"
  using assms
  by (simp add: infer_model_type_def omegaconf_create_def model_type_of_def cfg_getattr_def
      dictconfig_get_def Let_def in_keys_iff to_cfg_def)

lemma infer_flat_form:
  assumes "t \<noteq> []" and "t \<noteq> ''???''" and "\<not> is_interpolation t"
  shows "infer_model_type X s (PlainDict [(''_name'', VStr t)])
           = Inr (VStr t, DictConfig [(''_name'', VStr t)])"
  using assms
  by (simp add: infer_explicit omegaconf_create_def model_type_of_def cfg_getattr_def
      dictconfig_get_def)

lemma lookup_model_registered:
  assumes "map_of (MODEL_DATACLASS_REGISTRY s) t = Some dc"
    and "map_of (MODEL_REGISTRY s) t = Some m0"
  shows "\<exists>m. lookup_model s (VStr t) = Inr (Some m)"
  using assms
  by (cases "map_of (ARCH_MODEL_REGISTRY s) t")
    (simp_all add: lookup_model_def registry_get_def in_keys_iff)

text \<open>
  The flat form needs a name that line 45 reads as written: \<^verbatim>\<open>{"_name": ""}\<close> has a false
  \<^verbatim>\<open>_name\<close>, so line 47 takes the single key \<^verbatim>\<open>_name\<close> itself for the model type, and
  the read of \<^verbatim>\<open>{"_name": "???"}\<close> raises.
\<close>

lemma flat_form_empty_name:
  "resolve example_collaborators
     (run [RegisterModel [] (Some tiny_config) tiny_cls]) (PlainDict [(''_name'', VStr [])]) False
     = Inl (DirectoryInferFailed [[]] ''_name'')"
  by (simp add: example_defs build_defs)

lemma flat_form_missing_marker:
  "resolve X s (PlainDict [(''_name'', VStr ''???'')]) from_checkpoint
     = Inl (MissingMandatoryValue ''_name'')"
  by (simp add: build_defs)

text \<open>
  C5, amended: for a model name \<^verbatim>\<open>n\<close> that is not empty, is not the marker \<^verbatim>\<open>???\<close> and
  holds no \<^verbatim>\<open>${\<close>, registered as a model with a schema that has the field \<^verbatim>\<open>_name\<close>,
  building with \<^verbatim>\<open>{ n: {} }\<close> and building with \<^verbatim>\<open>{ "_name": n }\<close> resolve the same model
  class, and the two resolved configurations have the same fields in the same order
  with the same values, except for \<^verbatim>\<open>_name\<close>: the directory form leaves it at the
  schema's default, the flat form sets it to \<^verbatim>\<open>n\<close>. The two are equal when the schema's
  default for \<^verbatim>\<open>_name\<close> is \<^verbatim>\<open>n\<close>. (\<open>merge_with_parent\<close> is the merge of the spec.)
\<close>

theorem directory_form_matches_flat_form:
  assumes "t \<noteq> []" and "t \<noteq> ''???''" and "\<not> is_interpolation t"
    and "map_of (MODEL_DATACLASS_REGISTRY s) t = Some dc"
    and "map_of (MODEL_REGISTRY s) t = Some m0"
    and "''_name'' \<in> set (keys (dc_defaults dc))"
    and "merge_with_parent_impl X = merge_with_parent"
  shows "(\<exists>m. resolve X s (PlainDict [(t, VDict [])]) from_checkpoint
                = Inr (m, DictConfig (dc_defaults dc))
            \<and> resolve X s (PlainDict [(''_name'', VStr t)]) from_checkpoint
                = Inr (m, DictConfig
                       (map (\<lambda>(f, d). (f, if f = ''_name'' then VStr t else d))
                          (dc_defaults dc))))
         \<and> ((\<forall>d. (''_name'', d) \<in> set (dc_defaults dc) \<longrightarrow> d = VStr t) \<longrightarrow>
              resolve X s (PlainDict [(t, VDict [])]) from_checkpoint
                = resolve X s (PlainDict [(''_name'', VStr t)]) from_checkpoint)"
proof -
  let ?D = "dc_defaults dc"
  let ?D' = "map (\<lambda>(f, d). (f, if f = ''_name'' then VStr t else d)) ?D"
  obtain m where l: "lookup_model s (VStr t) = Inr (Some m)"
    using lookup_model_registered [OF assms(4,5)] ..
  have r1: "reconcile_cfg X s (VStr t) (DictConfig []) from_checkpoint = Inr (DictConfig ?D)"
    using assms(4,7) by (simp add: reconcile_cfg_def registry_get_def merge_no_overrides)
  have r2: "reconcile_cfg X s (VStr t) (DictConfig [(''_name'', VStr t)]) from_checkpoint
              = Inr (DictConfig ?D')"
    using assms(4,7) merge_only_name [OF assms(6)]
    by (simp add: reconcile_cfg_def registry_get_def)
  have d: "resolve X s (PlainDict [(t, VDict [])]) from_checkpoint = Inr (m, DictConfig ?D)"
    using infer_directory_known [OF assms(4)] l r1
    by (simp add: resolve_def assert_model_def)
  have f: "resolve X s (PlainDict [(''_name'', VStr t)]) from_checkpoint
             = Inr (m, DictConfig ?D')"
    using infer_flat_form [OF assms(1-3)] l r2
    by (simp add: resolve_def assert_model_def)
  have "resolve X s (PlainDict [(t, VDict [])]) from_checkpoint
          = resolve X s (PlainDict [(''_name'', VStr t)]) from_checkpoint"
    if "\<forall>d. (''_name'', d) \<in> set ?D \<longrightarrow> d = VStr t"
    using d f name_default_is_name [OF that] by simp
  with d f show ?thesis by blast
qed

theorem directory_form_matches_flat_form_witness:
  "resolve example_collaborators (run schema_calls) (PlainDict [(''tiny'', VDict [])]) False
     = Inr (tiny_cls, DictConfig [(''_name'', VNone), (''embed_dim'', VInt 256)])
   \<and> resolve example_collaborators (run schema_calls)
        (PlainDict [(''_name'', VStr ''tiny'')]) False
       = Inr (tiny_cls, DictConfig [(''_name'', VStr ''tiny''), (''embed_dim'', VInt 256)])
   \<and> resolve example_collaborators (run named_schema_calls)
        (PlainDict [(''tiny'', VDict [])]) False
       = resolve example_collaborators (run named_schema_calls)
           (PlainDict [(''_name'', VStr ''tiny'')]) False"
proof -
  let ?X = example_collaborators
  have h1: "''tiny'' \<noteq> []" by simp
  have h2: "''tiny'' \<noteq> ''???''" by simp
  have h3: "\<not> is_interpolation ''tiny''" by simp
  have h7: "merge_with_parent_impl ?X = merge_with_parent"
    by (simp add: example_collaborators_def)
  have s4: "map_of (MODEL_DATACLASS_REGISTRY (run schema_calls)) ''tiny'' = Some tiny_config"
    by (simp add: example_defs)
  have s5: "map_of (MODEL_REGISTRY (run schema_calls)) ''tiny'' = Some tiny_cls"
    by (simp add: example_defs)
  have s6: "''_name'' \<in> set (keys (dc_defaults tiny_config))"
    by (simp add: tiny_config_def keys_def)
  have n4: "map_of (MODEL_DATACLASS_REGISTRY (run named_schema_calls)) ''tiny''
              = Some tiny_named_config"
    by (simp add: example_defs)
  have n5: "map_of (MODEL_REGISTRY (run named_schema_calls)) ''tiny'' = Some tiny_cls"
    by (simp add: example_defs)
  have n6: "''_name'' \<in> set (keys (dc_defaults tiny_named_config))"
    by (simp add: tiny_named_config_def keys_def)
  have n8: "\<forall>d. (''_name'', d) \<in> set (dc_defaults tiny_named_config) \<longrightarrow> d = VStr ''tiny''"
    by (simp add: tiny_named_config_def)
  have cls: "resolve ?X (run schema_calls) (PlainDict [(''tiny'', VDict [])]) False
               = Inr (tiny_cls, DictConfig (dc_defaults tiny_config))"
    by (simp add: example_defs build_defs)
  note w1 = directory_form_matches_flat_form
              [OF h1 h2 h3 s4 s5 s6 h7, of False, THEN conjunct1]
  note w2 = directory_form_matches_flat_form
              [OF h1 h2 h3 n4 n5 n6 h7, of False, THEN conjunct2, THEN mp, OF n8]
  from w1 cls have
    "resolve ?X (run schema_calls) (PlainDict [(''tiny'', VDict [])]) False
       = Inr (tiny_cls, DictConfig [(''_name'', VNone), (''embed_dim'', VInt 256)])
     \<and> resolve ?X (run schema_calls) (PlainDict [(''_name'', VStr ''tiny'')]) False
         = Inr (tiny_cls, DictConfig [(''_name'', VStr ''tiny''), (''embed_dim'', VInt 256)])"
    by (auto simp add: tiny_config_def)
  with w2 show ?thesis by simp
qed

text \<open>
  C5, as the claim states it, fails: with the schema \<open>tiny_config\<close>, whose default for
  \<^verbatim>\<open>_name\<close> is \<^verbatim>\<open>None\<close>, the directory form resolves to the defaults and the flat form to
  the defaults with \<^verbatim>\<open>_name\<close> set to \<^verbatim>\<open>tiny\<close>.
\<close>

theorem directory_form_counterexample:
  "resolve example_collaborators (run schema_calls) (PlainDict [(''tiny'', VDict [])]) False
     = Inr (tiny_cls, DictConfig [(''_name'', VNone), (''embed_dim'', VInt 256)])
   \<and> resolve example_collaborators (run schema_calls)
        (PlainDict [(''_name'', VStr ''tiny'')]) False
       = Inr (tiny_cls, DictConfig [(''_name'', VStr ''tiny''), (''embed_dim'', VInt 256)])
   \<and> resolve example_collaborators (run schema_calls) (PlainDict [(''tiny'', VDict [])]) False
       \<noteq> resolve example_collaborators (run schema_calls)
            (PlainDict [(''_name'', VStr ''tiny'')]) False"
  by (simp add: example_defs build_defs)

section \<open>Building from a checkpoint\<close>


lemma hasattr_false_iff:
  "cfg_hasattr X c k = Inr False \<longleftrightarrow> cfg_read X c k = Inr None"
  by (auto simp add: cfg_hasattr_def split: sum.splits option.splits)

lemma hasattr_raises_iff:
  "cfg_hasattr X c k = Inl err \<longleftrightarrow> cfg_read X c k = Inl err"
  by (auto simp add: cfg_hasattr_def split: sum.splits option.splits)

lemma getattr_of_read:
  "cfg_read X c k = Inr (Some v) \<Longrightarrow> cfg_getattr X c k = Inr v"
  by (simp add: cfg_getattr_def)




end
